theory Spec2Isabelle
  imports Complex_Main
begin

section \<open>Python primitives used by the demos\<close>



section \<open>Accounting demo: \<open>ValidationManager.validate_siret\<close>\<close>







section \<open>Download manager demo: \<open>DownloadManager\<close>\<close>






















section \<open>Accounting demo: \<open>BackupManager\<close>\<close>


















section \<open>Accounting demo: the ledger tables and \<open>save_ecriture\<close>\<close>

text \<open>
  The rows of the three ledger tables, column by column as \<open>init_database\<close> creates
  them. \<open>REAL\<close> columns are reals, timestamps and dates are strings; the columns the
  demo leaves \<open>NULL\<close> (\<open>parent_id\<close>, \<open>piece_jointe\<close>, \<open>utilisateur\<close>) are options.
\<close>

record compte_row =
  c_id :: int
  c_numero :: string
  c_nom :: string
  c_type :: string
  c_parent_id :: "int option"
  c_solde :: real
  c_actif :: bool
  c_date_creation :: string
  c_date_modification :: string

record ecriture_row =
  e_id :: int
  e_numero :: string
  e_date_ecriture :: string
  e_libelle :: string
  e_montant_total :: real
  e_statut :: string
  e_piece_jointe :: "string option"
  e_utilisateur :: "string option"
  e_date_creation :: string
  e_date_modification :: string

record ligne_row =
  l_id :: int
  l_ecriture_id :: int
  l_compte_id :: int
  l_libelle :: string
  l_debit :: real
  l_credit :: real

text \<open>
  The database file. \<open>seq_ecritures\<close> and \<open>seq_lignes\<close> are the \<open>AUTOINCREMENT\<close>
  counters of the two tables (their rows of \<open>sqlite_sequence\<close>); \<open>autres_tables\<close> holds
  every other table (clients, fournisseurs, factures, ...) by name.
\<close>

record database =
  comptes :: "compte_row list"
  ecritures :: "ecriture_row list"
  seq_ecritures :: int
  lignes_ecriture :: "ligne_row list"
  seq_lignes :: int
  autres_tables :: "string \<Rightarrow> string list list"

datatype sqlite_error = IntegrityError string | OperationalError string

fun error_text :: "sqlite_error \<Rightarrow> string" where
  "error_text (IntegrityError msg) = msg"
| "error_text (OperationalError msg) = msg"

text \<open>
  A connection of the \<open>sqlite3\<close> module in its default mode: the first
  \<open>INSERT\<close>/\<open>UPDATE\<close>/\<open>DELETE\<close> opens a transaction, statements work on the
  transaction's copy \<open>txn\<close>, \<open>commit\<close> writes it to the file, and a connection given up
  without \<open>commit\<close> leaves the file as it was. \<open>stmts\<close> counts the calls made on the
  connection.
\<close>

record connection =
  disk :: database
  txn :: database
  stmts :: nat

definition sqlite3_connect :: "database \<Rightarrow> connection" where
  "sqlite3_connect db = \<lparr>disk = db, txn = db, stmts = 0\<rparr>"

text \<open>
  \<open>cursor.execute\<close>. A statement is a function on the tables that may violate a
  constraint. Whatever else makes SQLite raise (a locked database, a full disk) is the
  oracle \<open>fails\<close>: the \<open>n\<close>-th call on the connection raises \<open>OperationalError\<close> when
  \<open>fails n\<close> is a message.
\<close>

definition cursor_execute ::
  "(nat \<Rightarrow> string option) \<Rightarrow> (database \<Rightarrow> sqlite_error + database) \<Rightarrow> connection \<Rightarrow>
   sqlite_error + connection" where
  "cursor_execute fails stmt conn =
     (case fails (stmts conn) of
        Some msg \<Rightarrow> Inl (OperationalError msg)
      | None \<Rightarrow>
          (case stmt (txn conn) of
             Inl e \<Rightarrow> Inl e
           | Inr db' \<Rightarrow> Inr (conn\<lparr>txn := db', stmts := Suc (stmts conn)\<rparr>)))"

definition conn_commit :: "(nat \<Rightarrow> string option) \<Rightarrow> connection \<Rightarrow> sqlite_error + connection" where
  "conn_commit fails conn =
     (case fails (stmts conn) of
        Some msg \<Rightarrow> Inl (OperationalError msg)
      | None \<Rightarrow> Inr (conn\<lparr>disk := txn conn, stmts := Suc (stmts conn)\<rparr>))"

text \<open>The id an \<open>AUTOINCREMENT\<close> table gives its next row: one more than the largest ever used.\<close>

definition next_rowid :: "int \<Rightarrow> int list \<Rightarrow> int" where
  "next_rowid seq ids = fold max ids seq + 1"

text \<open>The fields of the entry form, and one line of the entry as the form holds it (a dict).\<close>

record form_values =
  v_numero :: string
  v_date_ecriture :: string
  v_libelle :: string

record ligne =
  compte_id :: int
  compte_nom :: string
  libelle :: string
  debit :: real
  credit :: real

text \<open>
  \<open>UPDATE ecritures SET numero = ?, date_ecriture = ?, libelle = ?, montant_total = ?,
  date_modification = CURRENT_TIMESTAMP WHERE id = ?\<close>. \<open>numero\<close> is \<open>UNIQUE\<close>.
\<close>

definition update_ecriture ::
  "string \<Rightarrow> form_values \<Rightarrow> real \<Rightarrow> int \<Rightarrow> database \<Rightarrow> sqlite_error + database" where
  "update_ecriture now vals montant_total ecriture_id db =
     (if (\<exists>r \<in> set (ecritures db). e_id r = ecriture_id) \<and>
         (\<exists>r \<in> set (ecritures db). e_id r \<noteq> ecriture_id \<and> e_numero r = v_numero vals)
      then Inl (IntegrityError ''UNIQUE constraint failed: ecritures.numero'')
      else Inr (db\<lparr>ecritures :=
             map (\<lambda>r. if e_id r = ecriture_id
                       then r\<lparr>e_numero := v_numero vals, e_date_ecriture := v_date_ecriture vals,
                              e_libelle := v_libelle vals, e_montant_total := montant_total,
                              e_date_modification := now\<rparr>
                       else r) (ecritures db)\<rparr>))"

text \<open>\<open>DELETE FROM lignes_ecriture WHERE ecriture_id = ?\<close>.\<close>

definition delete_lignes :: "int \<Rightarrow> database \<Rightarrow> sqlite_error + database" where
  "delete_lignes ecriture_id db =
     Inr (db\<lparr>lignes_ecriture := filter (\<lambda>l. l_ecriture_id l \<noteq> ecriture_id) (lignes_ecriture db)\<rparr>)"

text \<open>
  \<open>INSERT INTO ecritures (numero, date_ecriture, libelle, montant_total, utilisateur)
  VALUES (?, ?, ?, ?, ?)\<close>; the other columns take their defaults.
\<close>

definition insert_ecriture ::
  "string \<Rightarrow> form_values \<Rightarrow> real \<Rightarrow> string \<Rightarrow> database \<Rightarrow> sqlite_error + database" where
  "insert_ecriture now vals montant_total utilisateur db =
     (if \<exists>r \<in> set (ecritures db). e_numero r = v_numero vals
      then Inl (IntegrityError ''UNIQUE constraint failed: ecritures.numero'')
      else
        (let new_id = next_rowid (seq_ecritures db) (map e_id (ecritures db))
         in Inr (db\<lparr>ecritures := ecritures db @
                   [\<lparr>e_id = new_id, e_numero = v_numero vals,
                     e_date_ecriture = v_date_ecriture vals, e_libelle = v_libelle vals,
                     e_montant_total = montant_total, e_statut = ''brouillon'',
                     e_piece_jointe = None, e_utilisateur = Some utilisateur,
                     e_date_creation = now, e_date_modification = now\<rparr>],
                   seq_ecritures := new_id\<rparr>)))"

text \<open>\<open>cursor.lastrowid\<close> after that insert.\<close>

definition lastrowid_ecritures :: "connection \<Rightarrow> int" where
  "lastrowid_ecritures conn = seq_ecritures (txn conn)"

text \<open>
  \<open>INSERT INTO lignes_ecriture (ecriture_id, compte_id, libelle, debit, credit)
  VALUES (?, ?, ?, ?, ?)\<close>. Foreign keys are not enforced: no \<open>PRAGMA foreign_keys\<close> is
  issued.
\<close>

definition insert_ligne :: "int \<Rightarrow> ligne \<Rightarrow> database \<Rightarrow> sqlite_error + database" where
  "insert_ligne current_ecriture_id lg db =
     (let new_id = next_rowid (seq_lignes db) (map l_id (lignes_ecriture db))
      in Inr (db\<lparr>lignes_ecriture := lignes_ecriture db @
                [\<lparr>l_id = new_id, l_ecriture_id = current_ecriture_id,
                  l_compte_id = compte_id lg, l_libelle = libelle lg,
                  l_debit = debit lg, l_credit = credit lg\<rparr>],
                seq_lignes := new_id\<rparr>))"

text \<open>
  The loop \<open>for ligne in lignes_ecriture: cursor.execute(INSERT ...)\<close>. The result is
  the exception that ended it, if any, and the connection as the loop leaves it.
\<close>

fun insert_lignes ::
  "(nat \<Rightarrow> string option) \<Rightarrow> int \<Rightarrow> ligne list \<Rightarrow> connection \<Rightarrow>
   sqlite_error option \<times> connection" where
  "insert_lignes fails current_ecriture_id [] conn = (None, conn)"
| "insert_lignes fails current_ecriture_id (lg # lgs) conn =
     (case cursor_execute fails (insert_ligne current_ecriture_id lg) conn of
        Inl e \<Rightarrow> (Some e, conn)
      | Inr conn' \<Rightarrow> insert_lignes fails current_ecriture_id lgs conn')"

text \<open>
  The branch \<open>if ecriture_id: ... else: ...\<close> of \<open>save_ecriture\<close>; \<open>if ecriture_id:\<close>
  holds for an id that is neither \<open>None\<close> nor 0. It yields \<open>current_ecriture_id\<close>, or
  the exception raised. \<open>utilisateur\<close> is
  \<open>self.auth_manager.current_user['nom_utilisateur']\<close>, \<open>now\<close> is \<open>CURRENT_TIMESTAMP\<close>.
\<close>

definition save_entete ::
  "(nat \<Rightarrow> string option) \<Rightarrow> string \<Rightarrow> string \<Rightarrow> int option \<Rightarrow> form_values \<Rightarrow> real \<Rightarrow>
   connection \<Rightarrow> (sqlite_error + int) \<times> connection" where
  "save_entete fails now utilisateur ecriture_id vals montant_total conn =
     (let ajout =
        (case cursor_execute fails (insert_ecriture now vals montant_total utilisateur) conn of
           Inl e \<Rightarrow> (Inl e, conn)
         | Inr conn1 \<Rightarrow> (Inr (lastrowid_ecritures conn1), conn1))
      in case ecriture_id of
           None \<Rightarrow> ajout
         | Some eid \<Rightarrow>
             if eid = 0 then ajout
             else
               (case cursor_execute fails (update_ecriture now vals montant_total eid) conn of
                  Inl e \<Rightarrow> (Inl e, conn)
                | Inr conn1 \<Rightarrow>
                    (case cursor_execute fails (delete_lignes eid) conn1 of
                       Inl e \<Rightarrow> (Inl e, conn1)
                     | Inr conn2 \<Rightarrow> (Inr eid, conn2))))"

text \<open>
  The \<open>try\<close> block of \<open>save_ecriture\<close>, up to and including \<open>conn.commit()\<close>: the
  exception that ended it, if any, and the connection at that point.
\<close>

definition save_ecriture_try ::
  "(nat \<Rightarrow> string option) \<Rightarrow> string \<Rightarrow> string \<Rightarrow> int option \<Rightarrow> form_values \<Rightarrow> ligne list \<Rightarrow>
   database \<Rightarrow> sqlite_error option \<times> connection" where
  "save_ecriture_try fails now utilisateur ecriture_id vals lignes db =
     (let conn = sqlite3_connect db;
          montant_total = sum_list (map debit lignes)
      in case save_entete fails now utilisateur ecriture_id vals montant_total conn of
           (Inl e, conn') \<Rightarrow> (Some e, conn')
         | (Inr current_ecriture_id, conn') \<Rightarrow>
             (case insert_lignes fails current_ecriture_id lignes conn' of
                (Some e, conn'') \<Rightarrow> (Some e, conn'')
              | (None, conn'') \<Rightarrow>
                  (case conn_commit fails conn'' of
                     Inl e \<Rightarrow> (Some e, conn'')
                   | Inr conn3 \<Rightarrow> (None, conn3))))"

text \<open>
  \<open>save_ecriture\<close>: its return value, the database file afterwards, and the popups it
  shows. In the \<open>except sqlite3.Error\<close> branch the connection is given up as it is,
  without \<open>commit\<close> or \<open>rollback\<close>; either way the file is the connection's \<open>disk\<close>.
  \<open>sqlite3.connect\<close> itself is taken to succeed.
\<close>

definition save_ecriture ::
  "(nat \<Rightarrow> string option) \<Rightarrow> string \<Rightarrow> string \<Rightarrow> int option \<Rightarrow> form_values \<Rightarrow> ligne list \<Rightarrow>
   database \<Rightarrow> bool \<times> database \<times> string list" where
  "save_ecriture fails now utilisateur ecriture_id vals lignes db =
     (case save_ecriture_try fails now utilisateur ecriture_id vals lignes db of
        (Some e, conn) \<Rightarrow> (False, disk conn, [''Erreur lors de la sauvegarde: '' @ error_text e])
      | (None, conn) \<Rightarrow> (True, disk conn, []))"

text \<open>
  How many calls \<open>save_ecriture\<close> makes on its connection when none of them raises:
  \<open>UPDATE\<close> and \<open>DELETE\<close>, or one \<open>INSERT\<close>; one \<open>INSERT\<close> per line; \<open>commit\<close>.
\<close>

definition save_ecriture_calls :: "int option \<Rightarrow> ligne list \<Rightarrow> nat" where
  "save_ecriture_calls ecriture_id lignes =
     (if ecriture_id \<noteq> None \<and> ecriture_id \<noteq> Some 0 then 2 else 1) + length lignes + 1"

text \<open>The columns of a row of \<open>lignes_ecriture\<close> that \<open>save_ecriture\<close> supplies.\<close>

definition ligne_columns :: "ligne_row \<Rightarrow> int \<times> int \<times> string \<times> real \<times> real" where
  "ligne_columns r = (l_ecriture_id r, l_compte_id r, l_libelle r, l_debit r, l_credit r)"

definition ligne_values :: "int \<Rightarrow> ligne \<Rightarrow> int \<times> int \<times> string \<times> real \<times> real" where
  "ligne_values current_ecriture_id lg =
     (current_ecriture_id, compte_id lg, libelle lg, debit lg, credit lg)"

text \<open>
  A small ledger for worked examples: two accounts, the entry \<open>E1\<close> of 100.00 with its
  two lines, and the entry \<open>E2\<close> without lines.
\<close>

definition db_example :: database where
  "db_example =
     \<lparr>comptes =
        [\<lparr>c_id = 1, c_numero = ''512'', c_nom = ''Banque'', c_type = ''actif'',
          c_parent_id = None, c_solde = 0, c_actif = True,
          c_date_creation = ''2024-01-01'', c_date_modification = ''2024-01-01''\<rparr>,
         \<lparr>c_id = 2, c_numero = ''706'', c_nom = ''Prestations'', c_type = ''produit'',
          c_parent_id = None, c_solde = 0, c_actif = True,
          c_date_creation = ''2024-01-01'', c_date_modification = ''2024-01-01''\<rparr>],
      ecritures =
        [\<lparr>e_id = 1, e_numero = ''E1'', e_date_ecriture = ''2024-01-02'', e_libelle = ''Vente'',
          e_montant_total = 100, e_statut = ''brouillon'', e_piece_jointe = None,
          e_utilisateur = Some ''admin'', e_date_creation = ''2024-01-02'',
          e_date_modification = ''2024-01-02''\<rparr>,
         \<lparr>e_id = 2, e_numero = ''E2'', e_date_ecriture = ''2024-01-03'', e_libelle = ''Achat'',
          e_montant_total = 0, e_statut = ''brouillon'', e_piece_jointe = None,
          e_utilisateur = Some ''admin'', e_date_creation = ''2024-01-03'',
          e_date_modification = ''2024-01-03''\<rparr>],
      seq_ecritures = 2,
      lignes_ecriture =
        [\<lparr>l_id = 1, l_ecriture_id = 1, l_compte_id = 1, l_libelle = ''Vente'',
          l_debit = 100, l_credit = 0\<rparr>,
         \<lparr>l_id = 2, l_ecriture_id = 1, l_compte_id = 2, l_libelle = ''Vente'',
          l_debit = 0, l_credit = 100\<rparr>],
      seq_lignes = 2,
      autres_tables = (\<lambda>t. [])\<rparr>"

text \<open>The form's fields and two balanced lines of 250.00 for those examples.\<close>

definition vals_example :: form_values where
  "vals_example = \<lparr>v_numero = ''E1'', v_date_ecriture = ''2024-02-01'', v_libelle = ''Vente corrigee''\<rparr>"

definition lignes_example :: "ligne list" where
  "lignes_example =
     [\<lparr>compte_id = 1, compte_nom = ''512 - Banque'', libelle = ''Vente'', debit = 250, credit = 0\<rparr>,
      \<lparr>compte_id = 2, compte_nom = ''706 - Prestations'', libelle = ''Vente'', debit = 0, credit = 250\<rparr>]"

text \<open>An oracle under which every call succeeds, and one under which the call number \<open>n\<close> raises.\<close>

definition no_failure :: "nat \<Rightarrow> string option" where
  "no_failure k = None"

definition failure_at :: "nat \<Rightarrow> nat \<Rightarrow> string option" where
  "failure_at n k = (if k = n then Some ''database is locked'' else None)"

section \<open>Accounting demo: the entry form \<open>show_ecriture_form_window\<close>\<close>












section \<open>Accounting demo: \<open>filter_ecritures\<close> and \<open>execute_query\<close>\<close>

text \<open>
  What reaches SQLite: \<open>cursor.execute(query, params)\<close> with the SQL text and the bound
  parameters, or \<open>cursor.execute(query)\<close> with the text alone.
\<close>

datatype cursor_call = CursorExecute string "string list" | CursorExecuteText string

fun sql_text :: "cursor_call \<Rightarrow> string" where
  "sql_text (CursorExecute query params) = query"
| "sql_text (CursorExecuteText query) = query"

fun bound_params :: "cursor_call \<Rightarrow> string list" where
  "bound_params (CursorExecute query params) = params"
| "bound_params (CursorExecuteText query) = []"

text \<open>\<open>execute_query\<close> and \<open>execute_update\<close> pass their arguments on: \<open>if params: ... else: ...\<close>.\<close>

definition execute_query :: "string \<Rightarrow> string list \<Rightarrow> cursor_call" where
  "execute_query query params =
     (if params \<noteq> [] then CursorExecute query params else CursorExecuteText query)"

text \<open>The triple-quoted literal that \<open>filter_ecritures\<close> starts its query from.\<close>

definition filter_query_base :: string where
  "filter_query_base =
     [CHR 0x0A] @ ''            SELECT id, numero, date_ecriture, libelle, montant_total, statut'' @
     [CHR 0x0A] @ ''            FROM ecritures'' @
     [CHR 0x0A] @ ''            WHERE 1=1'' @
     [CHR 0x0A] @ ''        ''"

text \<open>
  \<open>filter_ecritures\<close>, up to its call of \<open>execute_query\<close>: the query text and the
  parameter list as the three \<open>if\<close> statements build them.
\<close>

definition filter_ecritures_query :: "string \<Rightarrow> string \<Rightarrow> string \<Rightarrow> string \<times> string list" where
  "filter_ecritures_query date_debut date_fin statut =
     (let query = filter_query_base;
          params = [];
          (query, params) =
            (if date_debut \<noteq> [] then (query @ '' AND date_ecriture >= ?'', params @ [date_debut])
             else (query, params));
          (query, params) =
            (if date_fin \<noteq> [] then (query @ '' AND date_ecriture <= ?'', params @ [date_fin])
             else (query, params));
          (query, params) =
            (if statut \<noteq> [] \<and> statut \<noteq> ''Tous''
             then (query @ '' AND statut = ?'', params @ [statut])
             else (query, params));
          query = query @ '' ORDER BY date_ecriture DESC, numero DESC LIMIT 200''
      in (query, params))"

definition filter_ecritures :: "string \<Rightarrow> string \<Rightarrow> string \<Rightarrow> cursor_call" where
  "filter_ecritures date_debut date_fin statut =
     (case filter_ecritures_query date_debut date_fin statut of
        (query, params) \<Rightarrow> execute_query query params)"

section \<open>Verified properties\<close>

subsection \<open>\<open>validate_siret\<close>\<close>








subsection \<open>\<open>DownloadManager.start_download\<close> and the worker threads\<close>

















subsection \<open>\<open>BackupManager\<close>: backups and their retention\<close>
















subsection \<open>\<open>save_ecriture\<close>: what it writes, and atomicity\<close>

lemma cursor_execute_disk:
  "cursor_execute fails stmt conn = Inr conn' \<Longrightarrow> disk conn' = disk conn"
  by (auto simp: cursor_execute_def split: option.splits sum.splits)

lemma insert_lignes_disk:
  "insert_lignes fails cid lgs conn = (r, conn') \<Longrightarrow> disk conn' = disk conn"
proof (induction lgs arbitrary: conn)
  case Nil
  then show ?case by simp
next
  case (Cons lg lgs)
  show ?case
  proof (cases "cursor_execute fails (insert_ligne cid lg) conn")
    case (Inl e)
    with Cons.prems show ?thesis by simp
  next
    case (Inr conn1)
    with Cons.prems have "insert_lignes fails cid lgs conn1 = (r, conn')" by simp
    from Cons.IH [OF this] cursor_execute_disk [OF Inr] show ?thesis by simp
  qed
qed

lemma save_entete_disk:
  "save_entete fails now u eid vals m conn = (r, conn') \<Longrightarrow> disk conn' = disk conn"
  by (auto simp: save_entete_def Let_def split: option.splits sum.splits if_splits
      dest: cursor_execute_disk) (metis cursor_execute_disk)+

lemma save_ecriture_try_error_disk:
  assumes "save_ecriture_try fails now u eid vals lignes db = (Some e, conn)"
  shows "disk conn = db"
proof -
  let ?c0 = "sqlite3_connect db"
  obtain r c1 where h: "save_entete fails now u eid vals (sum_list (map debit lignes)) ?c0 = (r, c1)"
    by (cases "save_entete fails now u eid vals (sum_list (map debit lignes)) ?c0") auto
  have d1: "disk c1 = db" using save_entete_disk [OF h] by (simp add: sqlite3_connect_def)
  show ?thesis
  proof (cases r)
    case (Inl e')
    with assms h d1 show ?thesis by (simp add: save_ecriture_try_def Let_def)
  next
    case (Inr cid)
    obtain r2 c2 where l: "insert_lignes fails cid lignes c1 = (r2, c2)"
      by (cases "insert_lignes fails cid lignes c1") auto
    have d2: "disk c2 = db" using insert_lignes_disk [OF l] d1 by simp
    from assms h Inr l d2 show ?thesis
      by (auto simp: save_ecriture_try_def Let_def split: option.splits sum.splits)
  qed
qed

lemma cursor_execute_ok:
  "cursor_execute fails stmt conn = Inr conn' \<Longrightarrow>
   fails (stmts conn) = None \<and> stmts conn' = Suc (stmts conn) \<and> stmt (txn conn) = Inr (txn conn')"
  by (auto simp: cursor_execute_def split: option.splits sum.splits)

lemma conn_commit_ok:
  "conn_commit fails conn = Inr conn' \<Longrightarrow>
   fails (stmts conn) = None \<and> stmts conn' = Suc (stmts conn) \<and> disk conn' = txn conn \<and>
   txn conn' = txn conn"
  by (auto simp: conn_commit_def split: option.splits)

lemma insert_ligne_frame:
  "insert_ligne cid lg db = Inr db' \<Longrightarrow>
   comptes db' = comptes db \<and> autres_tables db' = autres_tables db"
  by (auto simp: insert_ligne_def Let_def)

lemma insert_lignes_ok:
  "insert_lignes fails cid lgs conn = (None, conn') \<Longrightarrow>
   stmts conn' = stmts conn + length lgs \<and>
   (\<forall>k. stmts conn \<le> k \<and> k < stmts conn' \<longrightarrow> fails k = None) \<and>
   comptes (txn conn') = comptes (txn conn) \<and>
   autres_tables (txn conn') = autres_tables (txn conn) \<and>
   (\<exists>new. lignes_ecriture (txn conn') = lignes_ecriture (txn conn) @ new \<and>
      map ligne_columns new = map (ligne_values cid) lgs)"
proof (induction lgs arbitrary: conn)
  case Nil
  then show ?case by auto
next
  case (Cons lg lgs)
  show ?case
  proof (cases "cursor_execute fails (insert_ligne cid lg) conn")
    case (Inl e)
    with Cons.prems show ?thesis by simp
  next
    case (Inr conn1)
    with Cons.prems have rest: "insert_lignes fails cid lgs conn1 = (None, conn')" by simp
    note ih = Cons.IH [OF rest]
    note ok = cursor_execute_ok [OF Inr]
    from ok have t1: "txn conn1 = (txn conn)\<lparr>lignes_ecriture := lignes_ecriture (txn conn) @
        [\<lparr>l_id = next_rowid (seq_lignes (txn conn)) (map l_id (lignes_ecriture (txn conn))),
          l_ecriture_id = cid, l_compte_id = compte_id lg, l_libelle = libelle lg,
          l_debit = debit lg, l_credit = credit lg\<rparr>],
        seq_lignes := next_rowid (seq_lignes (txn conn)) (map l_id (lignes_ecriture (txn conn)))\<rparr>"
      by (simp add: insert_ligne_def Let_def)
    from ih obtain new where new: "lignes_ecriture (txn conn') = lignes_ecriture (txn conn1) @ new"
      and cols: "map ligne_columns new = map (ligne_values cid) lgs" by blast
    have n: "stmts conn' = stmts conn + length (lg # lgs)" using ih ok by simp
    have f: "\<forall>k. stmts conn \<le> k \<and> k < stmts conn' \<longrightarrow> fails k = None"
    proof (intro allI impI)
      fix k assume k: "stmts conn \<le> k \<and> k < stmts conn'"
      show "fails k = None"
      proof (cases "k = stmts conn")
        case True
        with ok show ?thesis by simp
      next
        case False
        with k ok have "stmts conn1 \<le> k \<and> k < stmts conn'" by simp
        with ih show ?thesis by blast
      qed
    qed
    have c: "comptes (txn conn') = comptes (txn conn) \<and>
        autres_tables (txn conn') = autres_tables (txn conn)"
      using ih by (simp add: t1)
    have l: "\<exists>new. lignes_ecriture (txn conn') = lignes_ecriture (txn conn) @ new \<and>
        map ligne_columns new = map (ligne_values cid) (lg # lgs)"
      using new cols
      by (intro exI [of _ "\<lparr>l_id = next_rowid (seq_lignes (txn conn)) (map l_id (lignes_ecriture (txn conn))),
          l_ecriture_id = cid, l_compte_id = compte_id lg, l_libelle = libelle lg,
          l_debit = debit lg, l_credit = credit lg\<rparr> # new"])
        (simp add: t1 ligne_columns_def ligne_values_def)
    from n f c l show ?thesis by blast
  qed
qed

lemma update_ecriture_frame:
  "update_ecriture now vals m i db = Inr db' \<Longrightarrow>
   comptes db' = comptes db \<and> autres_tables db' = autres_tables db \<and>
   lignes_ecriture db' = lignes_ecriture db"
  by (auto simp: update_ecriture_def split: if_splits)

lemma insert_ecriture_frame:
  "insert_ecriture now vals m u db = Inr db' \<Longrightarrow>
   comptes db' = comptes db \<and> autres_tables db' = autres_tables db \<and>
   lignes_ecriture db' = lignes_ecriture db"
  by (auto simp: insert_ecriture_def Let_def split: if_splits)

lemma delete_lignes_frame:
  "delete_lignes i db = Inr db' \<Longrightarrow>
   comptes db' = comptes db \<and> autres_tables db' = autres_tables db \<and>
   lignes_ecriture db' = filter (\<lambda>l. l_ecriture_id l \<noteq> i) (lignes_ecriture db)"
  by (auto simp: delete_lignes_def)

lemma save_entete_frame:
  assumes "save_entete fails now u eid vals m conn = (r, conn')"
  shows "comptes (txn conn') = comptes (txn conn) \<and>
         autres_tables (txn conn') = autres_tables (txn conn)"
proof -
  have ins: "comptes (txn c1) = comptes (txn conn) \<and> autres_tables (txn c1) = autres_tables (txn conn)"
    if "cursor_execute fails (insert_ecriture now vals m u) conn = Inr c1" for c1
    using cursor_execute_ok [OF that] insert_ecriture_frame by metis
  have upd: "comptes (txn c1) = comptes (txn conn) \<and> autres_tables (txn c1) = autres_tables (txn conn)"
    if "cursor_execute fails (update_ecriture now vals m i) conn = Inr c1" for c1 i
    using cursor_execute_ok [OF that] update_ecriture_frame by metis
  have del: "comptes (txn c2) = comptes (txn c1) \<and> autres_tables (txn c2) = autres_tables (txn c1)"
    if "cursor_execute fails (delete_lignes i) c1 = Inr c2" for c1 c2 i
    using cursor_execute_ok [OF that] delete_lignes_frame by metis
  from assms show ?thesis
    by (auto simp: save_entete_def Let_def split: option.splits sum.splits if_splits
        dest: ins upd del) (use upd del in metis)+
qed

lemma save_entete_ok:
  assumes "save_entete fails now u eid vals m conn = (Inr cid, conn')"
  shows "stmts conn' = stmts conn + (if eid \<noteq> None \<and> eid \<noteq> Some 0 then 2 else 1) \<and>
    (\<forall>k. stmts conn \<le> k \<and> k < stmts conn' \<longrightarrow> fails k = None) \<and>
    (\<forall>i. eid = Some i \<and> i \<noteq> 0 \<longrightarrow>
       cid = i \<and>
       lignes_ecriture (txn conn') = filter (\<lambda>l. l_ecriture_id l \<noteq> i) (lignes_ecriture (txn conn)))"
proof (cases "eid \<noteq> None \<and> eid \<noteq> Some 0")
  case True
  then obtain i where i: "eid = Some i" "i \<noteq> 0" by auto
  from assms i obtain c1 where
    u: "cursor_execute fails (update_ecriture now vals m i) conn = Inr c1" and
    d: "cursor_execute fails (delete_lignes i) c1 = Inr conn'" and c: "cid = i"
    by (auto simp: save_entete_def Let_def split: sum.splits)
  note ou = cursor_execute_ok [OF u] and od = cursor_execute_ok [OF d]
  have l1: "lignes_ecriture (txn c1) = lignes_ecriture (txn conn)"
    using ou update_ecriture_frame by metis
  have l2: "lignes_ecriture (txn conn') = filter (\<lambda>l. l_ecriture_id l \<noteq> i) (lignes_ecriture (txn c1))"
    using od delete_lignes_frame by metis
  have f: "\<forall>k. stmts conn \<le> k \<and> k < stmts conn' \<longrightarrow> fails k = None"
  proof (intro allI impI)
    fix k assume "stmts conn \<le> k \<and> k < stmts conn'"
    with ou od have "k = stmts conn \<or> k = stmts c1" by auto
    with ou od show "fails k = None" by auto
  qed
  from ou od f l1 l2 c i show ?thesis by simp
next
  case False
  with assms obtain c1 where
    a: "cursor_execute fails (insert_ecriture now vals m u) conn = Inr conn'"
    by (auto simp: save_entete_def Let_def split: sum.splits option.splits if_splits)
  note oa = cursor_execute_ok [OF a]
  have f: "\<forall>k. stmts conn \<le> k \<and> k < stmts conn' \<longrightarrow> fails k = None"
  proof (intro allI impI)
    fix k assume "stmts conn \<le> k \<and> k < stmts conn'"
    with oa have "k = stmts conn" by auto
    with oa show "fails k = None" by auto
  qed
  from oa f False show ?thesis by auto
qed

lemma save_ecriture_try_ok:
  assumes "save_ecriture_try fails now u eid vals lignes db = (None, conn)"
  shows "(\<forall>k < save_ecriture_calls eid lignes. fails k = None) \<and>
    disk conn = txn conn \<and>
    comptes (disk conn) = comptes db \<and> autres_tables (disk conn) = autres_tables db \<and>
    (\<forall>i. eid = Some i \<and> i \<noteq> 0 \<longrightarrow>
       map ligne_columns (filter (\<lambda>l. l_ecriture_id l = i) (lignes_ecriture (disk conn))) =
       map (ligne_values i) lignes)"
proof -
  let ?c0 = "sqlite3_connect db"
  let ?m = "sum_list (map debit lignes)"
  from assms obtain cid c1 c2 where
    h: "save_entete fails now u eid vals ?m ?c0 = (Inr cid, c1)" and
    l: "insert_lignes fails cid lignes c1 = (None, c2)" and
    c: "conn_commit fails c2 = Inr conn"
    by (auto simp: save_ecriture_try_def Let_def split: prod.splits sum.splits option.splits)
  note oh = save_entete_ok [OF h] and fh = save_entete_frame [OF h]
    and ol = insert_lignes_ok [OF l] and oc = conn_commit_ok [OF c]
  have s0: "stmts ?c0 = 0" "txn ?c0 = db" by (simp_all add: sqlite3_connect_def)
  have n: "stmts c2 = save_ecriture_calls eid lignes - 1"
    using oh ol s0 by (simp add: save_ecriture_calls_def)
  have f: "\<forall>k < save_ecriture_calls eid lignes. fails k = None"
  proof (intro allI impI)
    fix k assume k: "k < save_ecriture_calls eid lignes"
    then consider "k < stmts c1" | "stmts c1 \<le> k \<and> k < stmts c2" | "k = stmts c2"
      using n by (auto simp: save_ecriture_calls_def) linarith
    then show "fails k = None"
    proof cases
      case 1 with oh s0 show ?thesis by simp
    next
      case 2 with ol show ?thesis by blast
    next
      case 3 with oc show ?thesis by simp
    qed
  qed
  have d: "disk conn = txn conn" using oc by simp
  have fr: "comptes (disk conn) = comptes db \<and> autres_tables (disk conn) = autres_tables db"
    using oc ol fh s0 by simp
  have li: "map ligne_columns (filter (\<lambda>l. l_ecriture_id l = i) (lignes_ecriture (disk conn))) =
       map (ligne_values i) lignes" if i: "eid = Some i \<and> i \<noteq> 0" for i
  proof -
    from oh i have ci: "cid = i" and
      l1: "lignes_ecriture (txn c1) = filter (\<lambda>l. l_ecriture_id l \<noteq> i) (lignes_ecriture db)"
      using s0 by auto
    from ol obtain new where new: "lignes_ecriture (txn c2) = lignes_ecriture (txn c1) @ new"
      and cols: "map ligne_columns new = map (ligne_values cid) lignes" by blast
    have all_i: "\<forall>r \<in> set new. l_ecriture_id r = i"
    proof
      fix r assume "r \<in> set new"
      then have "ligne_columns r \<in> set (map (ligne_values cid) lignes)"
        using cols by (metis image_eqI set_map)
      then show "l_ecriture_id r = i"
        using ci by (auto simp: ligne_columns_def ligne_values_def)
    qed
    then have "filter (\<lambda>l. l_ecriture_id l = i) new = new" by (simp add: filter_id_conv)
    moreover have "filter (\<lambda>l. l_ecriture_id l = i)
        (filter (\<lambda>l. l_ecriture_id l \<noteq> i) (lignes_ecriture db)) = []"
      by (simp add: filter_empty_conv)
    ultimately have "filter (\<lambda>l. l_ecriture_id l = i) (lignes_ecriture (disk conn)) = new"
      using oc new l1 by simp
    with cols ci show ?thesis by simp
  qed
  from f d fr li show ?thesis by blast
qed

lemma save_ecriture_try_frame:
  assumes "save_ecriture_try fails now u eid vals lignes db = (r, conn)"
  shows "comptes (disk conn) = comptes db \<and> autres_tables (disk conn) = autres_tables db"
proof (cases r)
  case None
  with assms save_ecriture_try_ok show ?thesis by blast
next
  case (Some e)
  with assms save_ecriture_try_error_disk have "disk conn = db" by blast
  then show ?thesis by simp
qed

text \<open>
  C4. Saving an entry enforces no ledger invariant outside the entry itself: whatever
  the call (add or modify) and however it ends, the \<open>comptes\<close> table is unchanged,
  every \<open>solde\<close> included, and so is every table other than \<open>ecritures\<close> and
  \<open>lignes_ecriture\<close>.
\<close>

theorem save_ecriture_leaves_comptes:
  "comptes (fst (snd (save_ecriture fails now u eid vals lignes db))) = comptes db \<and>
   map c_solde (comptes (fst (snd (save_ecriture fails now u eid vals lignes db)))) =
     map c_solde (comptes db) \<and>
   autres_tables (fst (snd (save_ecriture fails now u eid vals lignes db))) = autres_tables db"
proof -
  obtain r conn where t: "save_ecriture_try fails now u eid vals lignes db = (r, conn)"
    by (cases "save_ecriture_try fails now u eid vals lignes db") auto
  have "fst (snd (save_ecriture fails now u eid vals lignes db)) = disk conn"
    using t by (simp add: save_ecriture_def split: option.splits)
  with save_ecriture_try_frame [OF t] show ?thesis by simp
qed

text \<open>
  C6. \<open>save_ecriture\<close> is atomic. It works on one connection and commits once, at the
  end. When any of its calls on the connection raises \<open>sqlite3.Error\<close> it returns False;
  and whenever it returns False the database is unchanged (and an error popup is shown).
  So a modification never leaves the entry with its old lines deleted and the new ones
  missing: either nothing has changed, or the entry's lines are exactly the new ones.
\<close>

theorem save_ecriture_atomic:
  "((\<exists>k < save_ecriture_calls eid lignes. fails k \<noteq> None) \<longrightarrow>
       \<not> fst (save_ecriture fails now u eid vals lignes db)) \<and>
   (\<not> fst (save_ecriture fails now u eid vals lignes db) \<longrightarrow>
       fst (snd (save_ecriture fails now u eid vals lignes db)) = db \<and>
       snd (snd (save_ecriture fails now u eid vals lignes db)) \<noteq> []) \<and>
   (\<forall>i. eid = Some i \<and> i \<noteq> 0 \<and> fst (save_ecriture fails now u eid vals lignes db) \<longrightarrow>
       map ligne_columns (filter (\<lambda>l. l_ecriture_id l = i)
         (lignes_ecriture (fst (snd (save_ecriture fails now u eid vals lignes db))))) =
       map (ligne_values i) lignes)"
proof -
  obtain r conn where t: "save_ecriture_try fails now u eid vals lignes db = (r, conn)"
    by (cases "save_ecriture_try fails now u eid vals lignes db") auto
  show ?thesis
  proof (cases r)
    case None
    with t have s: "save_ecriture fails now u eid vals lignes db = (True, disk conn, [])"
      by (simp add: save_ecriture_def)
    from t None have "save_ecriture_try fails now u eid vals lignes db = (None, conn)" by simp
    from save_ecriture_try_ok [OF this] s show ?thesis by auto
  next
    case (Some e)
    with t have s: "save_ecriture fails now u eid vals lignes db =
        (False, disk conn, [''Erreur lors de la sauvegarde: '' @ error_text e])"
      by (simp add: save_ecriture_def)
    from t Some have "save_ecriture_try fails now u eid vals lignes db = (Some e, conn)" by simp
    from save_ecriture_try_error_disk [OF this] s show ?thesis by simp
  qed
qed

theorem save_ecriture_atomic_witness:
  "2 < save_ecriture_calls (Some 1) lignes_example \<and> failure_at 2 2 \<noteq> None \<and>
   \<not> fst (save_ecriture (failure_at 2) ''2024-02-01 10:00:00'' ''admin'' (Some 1)
           vals_example lignes_example db_example) \<and>
   fst (snd (save_ecriture (failure_at 2) ''2024-02-01 10:00:00'' ''admin'' (Some 1)
           vals_example lignes_example db_example)) = db_example \<and>
   fst (save_ecriture no_failure ''2024-02-01 10:00:00'' ''admin'' (Some 1)
           vals_example lignes_example db_example) \<and>
   map ligne_columns (filter (\<lambda>l. l_ecriture_id l = 1)
     (lignes_ecriture (fst (snd (save_ecriture no_failure ''2024-02-01 10:00:00'' ''admin''
        (Some 1) vals_example lignes_example db_example))))) =
   map (ligne_values 1) lignes_example"
proof -
  have c: "2 < save_ecriture_calls (Some 1) lignes_example"
    by (simp add: save_ecriture_calls_def lignes_example_def)
  have f: "failure_at 2 2 \<noteq> None"
    by (simp add: failure_at_def)
  from c f have ex: "\<exists>k < save_ecriture_calls (Some 1) lignes_example. failure_at 2 k \<noteq> None"
    by blast
  have ok: "fst (save_ecriture no_failure ''2024-02-01 10:00:00'' ''admin'' (Some 1)
           vals_example lignes_example db_example)"
    by code_simp
  note a = save_ecriture_atomic [of "Some 1" lignes_example "failure_at 2"
      "''2024-02-01 10:00:00''" "''admin''" vals_example db_example]
  note b = save_ecriture_atomic [of "Some 1" lignes_example no_failure
      "''2024-02-01 10:00:00''" "''admin''" vals_example db_example]
  from a ex have n: "\<not> fst (save_ecriture (failure_at 2) ''2024-02-01 10:00:00'' ''admin'' (Some 1)
           vals_example lignes_example db_example)"
    by blast
  with a have u: "fst (snd (save_ecriture (failure_at 2) ''2024-02-01 10:00:00'' ''admin'' (Some 1)
           vals_example lignes_example db_example)) = db_example"
    by blast
  from b ok have l: "map ligne_columns (filter (\<lambda>l. l_ecriture_id l = 1)
     (lignes_ecriture (fst (snd (save_ecriture no_failure ''2024-02-01 10:00:00'' ''admin''
        (Some 1) vals_example lignes_example db_example))))) =
     map (ligne_values 1) lignes_example"
    by simp
  from c f n u ok l show ?thesis by blast
qed

subsection \<open>The entry form: what \<open>Enregistrer\<close> lets through\<close>












subsection \<open>\<open>filter_ecritures\<close>: a parameterized query\<close>

lemma filter_ecritures_query_eq:
  "filter_ecritures_query d f s =
     (filter_query_base @
        (if d \<noteq> [] then '' AND date_ecriture >= ?'' else []) @
        (if f \<noteq> [] then '' AND date_ecriture <= ?'' else []) @
        (if s \<noteq> [] \<and> s \<noteq> ''Tous'' then '' AND statut = ?'' else []) @
        '' ORDER BY date_ecriture DESC, numero DESC LIMIT 200'',
      (if d \<noteq> [] then [d] else []) @ (if f \<noteq> [] then [f] else []) @
      (if s \<noteq> [] \<and> s \<noteq> ''Tous'' then [s] else []))"
  unfolding filter_ecritures_query_def Let_def
  by (cases "d = []"; cases "f = []"; cases "s \<noteq> [] \<and> s \<noteq> ''Tous''")
     (simp_all only: simp_thms if_True if_False prod.case append_Nil append_Nil2 append_assoc)

lemma count_base: "count_list filter_query_base (CHR ''?'') = 0"
  by (simp add: filter_query_base_def)

lemma placeholders:
  "count_list (fst (filter_ecritures_query d f s)) (CHR ''?'') =
   length (snd (filter_ecritures_query d f s))"
  by (simp add: filter_ecritures_query_eq count_base)

lemma filter_ecritures_text:
  "sql_text (filter_ecritures d f s) = fst (filter_ecritures_query d f s)"
  by (cases "filter_ecritures_query d f s") (simp add: filter_ecritures_def execute_query_def)

lemma filter_ecritures_params:
  "bound_params (filter_ecritures d f s) = snd (filter_ecritures_query d f s)"
  by (cases "filter_ecritures_query d f s") (simp add: filter_ecritures_def execute_query_def)

text \<open>
  C5. The one SQL statement of the accounting demo whose text is put together at run
  time, the query of \<open>filter_ecritures\<close>, is parameterized: its text is the fixed
  literal followed by fixed fragments, one \<open>?\<close> for each bound parameter; the user's
  values are the bound parameters, in order; and the text depends on the user's input
  only through which filters are set, never through what they contain. (Every other
  \<open>execute\<close> call of the demo passes a string literal as its text.)
\<close>

theorem filter_ecritures_parameterized:
  "sql_text (filter_ecritures d f s) =
     filter_query_base @
       (if d \<noteq> [] then '' AND date_ecriture >= ?'' else []) @
       (if f \<noteq> [] then '' AND date_ecriture <= ?'' else []) @
       (if s \<noteq> [] \<and> s \<noteq> ''Tous'' then '' AND statut = ?'' else []) @
       '' ORDER BY date_ecriture DESC, numero DESC LIMIT 200'' \<and>
   bound_params (filter_ecritures d f s) =
     (if d \<noteq> [] then [d] else []) @ (if f \<noteq> [] then [f] else []) @
     (if s \<noteq> [] \<and> s \<noteq> ''Tous'' then [s] else []) \<and>
   count_list (sql_text (filter_ecritures d f s)) (CHR ''?'') =
     length (bound_params (filter_ecritures d f s)) \<and>
   ((d = [] \<longleftrightarrow> d' = []) \<and> (f = [] \<longleftrightarrow> f' = []) \<and>
    (s = [] \<or> s = ''Tous'' \<longleftrightarrow> s' = [] \<or> s' = ''Tous'') \<longrightarrow>
      sql_text (filter_ecritures d f s) = sql_text (filter_ecritures d' f' s'))"
proof (intro conjI impI)
  show "sql_text (filter_ecritures d f s) =
     filter_query_base @
       (if d \<noteq> [] then '' AND date_ecriture >= ?'' else []) @
       (if f \<noteq> [] then '' AND date_ecriture <= ?'' else []) @
       (if s \<noteq> [] \<and> s \<noteq> ''Tous'' then '' AND statut = ?'' else []) @
       '' ORDER BY date_ecriture DESC, numero DESC LIMIT 200''"
    by (simp only: filter_ecritures_text filter_ecritures_query_eq fst_conv)
  show "bound_params (filter_ecritures d f s) =
     (if d \<noteq> [] then [d] else []) @ (if f \<noteq> [] then [f] else []) @
     (if s \<noteq> [] \<and> s \<noteq> ''Tous'' then [s] else [])"
    by (simp only: filter_ecritures_params filter_ecritures_query_eq snd_conv)
  show "count_list (sql_text (filter_ecritures d f s)) (CHR ''?'') =
     length (bound_params (filter_ecritures d f s))"
    by (simp only: filter_ecritures_text filter_ecritures_params placeholders)
next
  assume a: "(d = [] \<longleftrightarrow> d' = []) \<and> (f = [] \<longleftrightarrow> f' = []) \<and>
    (s = [] \<or> s = ''Tous'' \<longleftrightarrow> s' = [] \<or> s' = ''Tous'')"
  then have "(d \<noteq> []) = (d' \<noteq> [])" "(f \<noteq> []) = (f' \<noteq> [])"
    "(s \<noteq> [] \<and> s \<noteq> ''Tous'') = (s' \<noteq> [] \<and> s' \<noteq> ''Tous'')"
    by blast+
  then show "sql_text (filter_ecritures d f s) = sql_text (filter_ecritures d' f' s')"
    by (simp only: filter_ecritures_text filter_ecritures_query_eq fst_conv)
qed

theorem filter_ecritures_parameterized_witness:
  "sql_text (filter_ecritures ''2024-01-01'' [] ''x OR 1=1 --'') =
     sql_text (filter_ecritures ''2024-12-31'' [] ''valide'') \<and>
   bound_params (filter_ecritures ''2024-01-01'' [] ''x OR 1=1 --'') =
     [''2024-01-01'', ''x OR 1=1 --''] \<and>
   count_list (sql_text (filter_ecritures ''2024-01-01'' [] ''x OR 1=1 --'')) (CHR ''?'') = 2"
proof -
  note t = filter_ecritures_parameterized [of "''2024-01-01''" "[]" "''x OR 1=1 --''"
      "''2024-12-31''" "[]" "''valide''"]
  have h: "(''2024-01-01'' = [] \<longleftrightarrow> ''2024-12-31'' = []) \<and> (([]::string) = [] \<longleftrightarrow> ([]::string) = []) \<and>
    (''x OR 1=1 --'' = [] \<or> ''x OR 1=1 --'' = ''Tous'' \<longleftrightarrow> ''valide'' = [] \<or> ''valide'' = ''Tous'')"
    by simp
  from t h have e: "sql_text (filter_ecritures ''2024-01-01'' [] ''x OR 1=1 --'') =
     sql_text (filter_ecritures ''2024-12-31'' [] ''valide'')"
    by blast
  from t have p: "bound_params (filter_ecritures ''2024-01-01'' [] ''x OR 1=1 --'') =
     [''2024-01-01'', ''x OR 1=1 --'']"
    by simp
  from t have "count_list (sql_text (filter_ecritures ''2024-01-01'' [] ''x OR 1=1 --'')) (CHR ''?'') =
      length (bound_params (filter_ecritures ''2024-01-01'' [] ''x OR 1=1 --''))"
    by blast
  with p have c: "count_list (sql_text (filter_ecritures ''2024-01-01'' [] ''x OR 1=1 --'')) (CHR ''?'') = 2"
    by simp
  from e p c show ?thesis by blast
qed

end
